theory Spec2Isabelle
  imports Complex_Main
begin

section \<open>Python values, exceptions and effects\<close>

text \<open>
  The repository is glue code around four libraries: a document loader and text splitter,
  the Chroma vector store, the Groq chat model and the LangChain prompt and parser objects.
  The glue is embedded function by function. Every call that leaves the repository is a
  field of the record \<open>services\<close> below, so that each theorem holds for whatever those
  libraries do. An exception is a value \<open>Exn cls msg\<close> (class name and message) on the
  left of a sum, and the outside world (the disk, the model provider) is a state \<open>'w\<close>
  threaded through every effectful call.
\<close>

datatype exn = Exn string string

datatype pyval =
    PNone
  | PBool bool
  | PInt int
  | PFloat real
  | PStr string
  | PList "pyval list"
  | PDict "(string \<times> pyval) list"

text \<open>\<^verbatim>\<open>d.get(key, default)\<close> on a dictionary held as an association list.\<close>

definition dict_get :: "(string \<times> pyval) list \<Rightarrow> string \<Rightarrow> pyval \<Rightarrow> pyval" where
  "dict_get d key dflt = (case map_of d key of None \<Rightarrow> dflt | Some v \<Rightarrow> v)"

text \<open>\<^verbatim>\<open>sep.join(parts)\<close>.\<close>

fun join :: "string \<Rightarrow> string list \<Rightarrow> string" where
  "join sep [] = []"
| "join sep [x] = x"
| "join sep (x # y # ys) = x @ sep @ join sep (y # ys)"

text \<open>A LangChain \<open>Document\<close>: the text of a chunk and its metadata dictionary.\<close>

record document =
  page_content :: string
  metadata :: "(string \<times> pyval) list"

record HuggingFaceEmbeddings =
  model_name :: string
  model_kwargs :: "(string \<times> string) list"

record ChatGroq =
  groq_model_name :: string
  temperature :: real
  api_key :: "string option"

text \<open>
  A pydantic model is the list of its fields: name, annotated type and description.
\<close>

datatype pytype = Str | Float

record field =
  field_name :: string
  annotation :: pytype
  description :: string

type_synonym pydantic_model = "field list"

text \<open>A rendered chat prompt, and a prompt template: (role, text) pairs.\<close>

type_synonym messages = "(string \<times> string) list"

text \<open>The library calls made by the repository. \<open>'h\<close> is a Chroma handle.\<close>

record ('w, 'h) services =
  DirectoryLoader_load :: "string \<Rightarrow> string \<Rightarrow> 'w \<Rightarrow> (exn + document list) \<times> 'w"
  split_documents :: "nat \<Rightarrow> nat \<Rightarrow> document list \<Rightarrow> exn + document list"
  Chroma_from_documents ::
    "document list \<Rightarrow> HuggingFaceEmbeddings \<Rightarrow> string \<Rightarrow> 'w \<Rightarrow> (exn + 'h) \<times> 'w"
  Chroma :: "string \<Rightarrow> HuggingFaceEmbeddings \<Rightarrow> 'w \<Rightarrow> (exn + 'h) \<times> 'w"
  similarity_search :: "'h \<Rightarrow> string \<Rightarrow> int \<Rightarrow> 'w \<Rightarrow> (exn + document list) \<times> 'w"
  getenv :: "string \<Rightarrow> string option"
  format_messages :: "messages \<Rightarrow> (string \<times> pyval) list \<Rightarrow> exn + messages"
  get_format_instructions :: "pydantic_model \<Rightarrow> string"
  ChatGroq_invoke :: "ChatGroq \<Rightarrow> messages \<Rightarrow> 'w \<Rightarrow> (exn + string) \<times> 'w"
  JsonOutputParser_parse :: "pydantic_model \<Rightarrow> string \<Rightarrow> exn + pyval"
  StrOutputParser_parse :: "string \<Rightarrow> exn + string"

section \<open>knowledge\_base.py\<close>

record 'h KnowledgeBase =
  persist_directory :: string
  embeddings :: HuggingFaceEmbeddings
  vectorstore :: "'h option"

definition KnowledgeBase_init :: "string \<Rightarrow> 'h KnowledgeBase" where
  "KnowledgeBase_init dir =
     \<lparr> persist_directory = dir,
       embeddings = \<lparr> model_name = ''sentence-transformers/all-MiniLM-L6-v2'',
                      model_kwargs = [(''device'', ''cpu'')] \<rparr>,
       vectorstore = None \<rparr>"

definition load_documents ::
  "('w, 'h) services \<Rightarrow> string \<Rightarrow> 'w \<Rightarrow> (exn + document list) \<times> 'w" where
  "load_documents sv docs_path w =
     (case DirectoryLoader_load sv docs_path ''*.txt'' w of
        (Inl e, w') \<Rightarrow> (Inl e, w')
      | (Inr documents, w') \<Rightarrow> (split_documents sv 800 100 documents, w'))"

definition create_vectorstore ::
  "('w, 'h) services \<Rightarrow> 'h KnowledgeBase \<Rightarrow> document list \<Rightarrow> 'w
     \<Rightarrow> (exn + unit) \<times> 'h KnowledgeBase \<times> 'w" where
  "create_vectorstore sv kb documents w =
     (case Chroma_from_documents sv documents (embeddings kb) (persist_directory kb) w of
        (Inl e, w') \<Rightarrow> (Inl e, kb, w')
      | (Inr h, w') \<Rightarrow> (Inr (), kb\<lparr>vectorstore := Some h\<rparr>, w'))"

definition load_vectorstore ::
  "('w, 'h) services \<Rightarrow> 'h KnowledgeBase \<Rightarrow> 'w \<Rightarrow> (exn + unit) \<times> 'h KnowledgeBase \<times> 'w" where
  "load_vectorstore sv kb w =
     (case Chroma sv (persist_directory kb) (embeddings kb) w of
        (Inl e, w') \<Rightarrow> (Inl e, kb, w')
      | (Inr h, w') \<Rightarrow> (Inr (), kb\<lparr>vectorstore := Some h\<rparr>, w'))"

text \<open>
  \<^verbatim>\<open>not self.vectorstore\<close>: true for \<open>None\<close> and false for a handle. The class \<open>Chroma\<close> of
  \<open>langchain_chroma\<close> defines neither \<^verbatim>\<open>__bool__\<close> nor \<^verbatim>\<open>__len__\<close>, so every handle is true.
\<close>

definition not_vectorstore :: "'h KnowledgeBase \<Rightarrow> bool" where
  "not_vectorstore kb = (case vectorstore kb of None \<Rightarrow> True | Some h \<Rightarrow> False)"

text \<open>
  The last line of \<open>search\<close>: a method call on \<open>self.vectorstore\<close>, which on \<open>None\<close> is an
  \<open>AttributeError\<close>.
\<close>

definition query_vectorstore ::
  "('w, 'h) services \<Rightarrow> 'h KnowledgeBase \<Rightarrow> string \<Rightarrow> int \<Rightarrow> 'w
     \<Rightarrow> (exn + document list) \<times> 'h KnowledgeBase \<times> 'w" where
  "query_vectorstore sv kb query k w =
     (case vectorstore kb of
        None \<Rightarrow>
          (Inl (Exn ''AttributeError''
                  ''NoneType object has no attribute similarity_search''), kb, w)
      | Some h \<Rightarrow> (case similarity_search sv h query k w of (r, w') \<Rightarrow> (r, kb, w')))"

definition search ::
  "('w, 'h) services \<Rightarrow> 'h KnowledgeBase \<Rightarrow> string \<Rightarrow> int \<Rightarrow> 'w
     \<Rightarrow> (exn + document list) \<times> 'h KnowledgeBase \<times> 'w" where
  "search sv kb query k w =
     (if not_vectorstore kb then
        (case load_vectorstore sv kb w of
           (Inl e, kb', w') \<Rightarrow> (Inl e, kb', w')
         | (Inr u, kb', w') \<Rightarrow> query_vectorstore sv kb' query k w')
      else query_vectorstore sv kb query k w)"

section \<open>ticket\_classifier.py\<close>

text \<open>
  \<open>TicketClassification\<close>: three fields annotated \<open>str\<close> and one annotated \<open>float\<close>. The
  admissible values are named in the descriptions only.
\<close>

definition TicketClassification :: pydantic_model where
  "TicketClassification =
     [ \<lparr> field_name = ''category'', annotation = Str,
         description = ''Category: billing, technical, general, account'' \<rparr>,
       \<lparr> field_name = ''priority'', annotation = Str,
         description = ''Priority: low, medium, high, urgent'' \<rparr>,
       \<lparr> field_name = ''sentiment'', annotation = Str,
         description = ''Sentiment: positive, neutral, negative'' \<rparr>,
       \<lparr> field_name = ''confidence'', annotation = Float,
         description = ''Confidence score 0-1'' \<rparr> ]"

text \<open>A value has the annotated type of a field (an integer is accepted as a float).\<close>

fun has_type :: "pytype \<Rightarrow> pyval \<Rightarrow> bool" where
  "has_type Str (PStr s) = True"
| "has_type Float (PFloat x) = True"
| "has_type Float (PInt i) = True"
| "has_type t v = False"

definition conforms :: "pydantic_model \<Rightarrow> pyval \<Rightarrow> bool" where
  "conforms model v =
     (case v of
        PDict d \<Rightarrow>
          list_all (\<lambda>f. case map_of d (field_name f) of
                            None \<Rightarrow> False
                          | Some x \<Rightarrow> has_type (annotation f) x) model
      | _ \<Rightarrow> False)"

text \<open>
  A runnable maps an input to a result or an exception and may change the world.
  \<open>pipe\<close> is the operator \<^verbatim>\<open>|\<close> on runnables: the second stage runs on the output of the
  first, and an exception of the first stage ends the chain. \<open>step\<close> is a stage with no
  effect on the world.
\<close>

type_synonym ('w, 'a, 'b) runnable = "'a \<Rightarrow> 'w \<Rightarrow> (exn + 'b) \<times> 'w"

definition pipe :: "('w, 'a, 'b) runnable \<Rightarrow> ('w, 'b, 'c) runnable \<Rightarrow> ('w, 'a, 'c) runnable" where
  "pipe f g x w = (case f x w of (Inl e, w') \<Rightarrow> (Inl e, w') | (Inr y, w') \<Rightarrow> g y w')"

definition step :: "('a \<Rightarrow> exn + 'b) \<Rightarrow> ('w, 'a, 'b) runnable" where
  "step f x w = (f x, w)"

definition nl :: string where
  "nl = [CHR 0x0A]"

definition classifier_template :: messages where
  "classifier_template =
     [ (''system'', concat
         [ ''You are a customer support ticket classifier. '', nl,
           ''        Analyze tickets and categorize them:'', nl,
           ''        '', nl,
           ''        Categories:'', nl,
           ''        - billing: Payment, refunds, charges, invoices'', nl,
           ''        - technical: Bugs, features not working, errors'', nl,
           ''        - account: Login, password, profile issues'', nl,
           ''        - general: Questions, feedback, other'', nl,
           nl,
           ''        Priority levels:'', nl,
           ''        - urgent: Service down, billing errors, security issues'', nl,
           ''        - high: Features broken, important account issues'', nl,
           ''        - medium: Minor bugs, general questions'', nl,
           ''        - low: Feature requests, general feedback'', nl,
           nl,
           ''        {format_instructions}'' ]),
       (''user'', ''Ticket: {ticket_text}'') ]"

definition classifier_llm :: "('w, 'h) services \<Rightarrow> ChatGroq" where
  "classifier_llm sv =
     \<lparr> groq_model_name = ''llama-3.3-70b-versatile'',
       temperature = 0.1,
       api_key = getenv sv ''GROQ_API_KEY'' \<rparr>"

text \<open>
  The prompt of the classifier: the template with \<open>format_instructions\<close> already bound
  (\<^verbatim>\<open>.partial(...)\<close>), rendered on the variables of the call.
\<close>

definition classifier_prompt ::
  "('w, 'h) services \<Rightarrow> (string \<times> pyval) list \<Rightarrow> exn + messages" where
  "classifier_prompt sv vars =
     format_messages sv classifier_template
       ((''format_instructions'', PStr (get_format_instructions sv TicketClassification)) # vars)"

text \<open>\<^verbatim>\<open>chain = prompt | llm | parser\<close>.\<close>

definition create_classifier ::
  "('w, 'h) services \<Rightarrow> ('w, (string \<times> pyval) list, pyval) runnable" where
  "create_classifier sv =
     pipe (pipe (step (classifier_prompt sv)) (ChatGroq_invoke sv (classifier_llm sv)))
          (step (JsonOutputParser_parse sv TicketClassification))"

section \<open>response\_generator.py\<close>

definition response_template :: messages where
  "response_template =
     [ (''system'', concat
         [ ''You are a customer support agent. Use ONLY the provided context to answer.'', nl,
           ''            '', nl,
           ''            Rules:'', nl,
           ''            - Be empathetic and professional'', nl,
           ''            - If billing issue, be extra careful with specifics'', nl,
           ''            - If urgent, acknowledge immediately'', nl,
           ''            - If context doesn'' @ [CHR 0x27] @ ''t contain the answer, say so and offer to escalate'', nl,
           ''            '', nl,
           ''            Context: {context}'', nl,
           ''            Classification: {classification}'' ]),
       (''user'', ''Customer: {question}'') ]"

record ('w, 'h) ResponseGenerator =
  llm :: ChatGroq
  knowledge_base :: "'h KnowledgeBase"
  classifier :: "('w, (string \<times> pyval) list, pyval) runnable"
  response_prompt :: messages
  chain :: "('w, (string \<times> pyval) list, string) runnable"

definition ResponseGenerator_init :: "('w, 'h) services \<Rightarrow> ('w, 'h) ResponseGenerator" where
  "ResponseGenerator_init sv =
     (let the_llm = \<lparr> groq_model_name = ''llama-3.3-70b-versatile'',
                       temperature = 0.3,
                       api_key = getenv sv ''GROQ_API_KEY'' \<rparr>
      in \<lparr> llm = the_llm,
           knowledge_base = KnowledgeBase_init ''./chroma_db'',
           classifier = create_classifier sv,
           response_prompt = response_template,
           chain = pipe (pipe (step (format_messages sv response_template))
                              (ChatGroq_invoke sv the_llm))
                        (step (StrOutputParser_parse sv)) \<rparr>)"

text \<open>The dictionary returned by \<open>generate_response\<close>.\<close>

record TicketResult =
  response :: string
  classification :: pyval
  sources :: "pyval list"

definition generate_response ::
  "('w, 'h) services \<Rightarrow> ('w, 'h) ResponseGenerator \<Rightarrow> string \<Rightarrow> 'w
     \<Rightarrow> (exn + TicketResult) \<times> ('w, 'h) ResponseGenerator \<times> 'w" where
  "generate_response sv self ticket_text w =
     (case classifier self [(''ticket_text'', PStr ticket_text)] w of
        (Inl e, w1) \<Rightarrow> (Inl e, self, w1)
      | (Inr the_classification, w1) \<Rightarrow>
          (case search sv (knowledge_base self) ticket_text 5 w1 of
             (Inl e, kb', w2) \<Rightarrow> (Inl e, self\<lparr>knowledge_base := kb'\<rparr>, w2)
           | (Inr relevant_docs, kb', w2) \<Rightarrow>
               (let context_text = join (nl @ nl) (map page_content relevant_docs)
                in case chain self
                          [ (''context'', PStr context_text),
                            (''classification'', the_classification),
                            (''question'', PStr ticket_text) ] w2 of
                     (Inl e, w3) \<Rightarrow> (Inl e, self\<lparr>knowledge_base := kb'\<rparr>, w3)
                   | (Inr the_response, w3) \<Rightarrow>
                       (Inr \<lparr> response = the_response,
                              classification = the_classification,
                              sources = map (\<lambda>doc. dict_get (metadata doc) ''source''
                                                       (PStr ''unknown'')) relevant_docs \<rparr>,
                        self\<lparr>knowledge_base := kb'\<rparr>, w3))))"

section \<open>The domains named by the specification\<close>

text \<open>
  The Classification of the specification: a dictionary whose \<open>category\<close>, \<open>priority\<close> and
  \<open>sentiment\<close> are strings of the enumerated sets and whose \<open>confidence\<close> is a number of
  the interval from 0 to 1.
\<close>

definition str_field_in :: "(string \<times> pyval) list \<Rightarrow> string \<Rightarrow> string list \<Rightarrow> bool" where
  "str_field_in d key allowed =
     (case map_of d key of Some (PStr s) \<Rightarrow> s \<in> set allowed | _ \<Rightarrow> False)"

definition confidence_in_unit :: "(string \<times> pyval) list \<Rightarrow> bool" where
  "confidence_in_unit d =
     (case map_of d ''confidence'' of
        Some (PFloat x) \<Rightarrow> 0 \<le> x \<and> x \<le> 1
      | Some (PInt i) \<Rightarrow> 0 \<le> i \<and> i \<le> 1
      | _ \<Rightarrow> False)"

definition in_Classification_domain :: "pyval \<Rightarrow> bool" where
  "in_Classification_domain v =
     (case v of
        PDict d \<Rightarrow>
          str_field_in d ''category'' [''billing'', ''technical'', ''account'', ''general'']
          \<and> str_field_in d ''priority'' [''low'', ''medium'', ''high'', ''urgent'']
          \<and> str_field_in d ''sentiment'' [''positive'', ''neutral'', ''negative'']
          \<and> confidence_in_unit d
      | _ \<Rightarrow> False)"

text \<open>An outcome is the raising of an exception of the class named.\<close>

definition raises_class :: "exn + 'a \<Rightarrow> string \<Rightarrow> bool" where
  "raises_class r cls = (case r of Inl (Exn c msg) \<Rightarrow> c = cls | Inr v \<Rightarrow> False)"

section \<open>Test doubles for the libraries\<close>

text \<open>
  A small concrete world on which the functions above can be run: the persisted
  collections by directory, the number of Chroma handles constructed so far, and the
  replies the chat model will give, in order.
\<close>

record world =
  disk :: "(string \<times> document list) list"
  constructed :: nat
  replies :: "(exn + string) list"

definition stored :: "world \<Rightarrow> string \<Rightarrow> document list" where
  "stored w dir = (case map_of (disk w) dir of None \<Rightarrow> [] | Some ds \<Rightarrow> ds)"

text \<open>
  The Chroma double. Its handle is the directory. Constructing a handle on a directory
  with no collection creates an empty collection there when \<open>creates\<close> holds and raises
  otherwise. A search raises for \<open>k \<le> 0\<close>, as the store does, and otherwise returns the
  first \<open>k\<close> stored chunks.
\<close>

definition stub_Chroma ::
  "bool \<Rightarrow> string \<Rightarrow> HuggingFaceEmbeddings \<Rightarrow> world \<Rightarrow> (exn + string) \<times> world" where
  "stub_Chroma creates dir emb w =
     (case map_of (disk w) dir of
        Some ds \<Rightarrow> (Inr dir, w\<lparr>constructed := constructed w + 1\<rparr>)
      | None \<Rightarrow>
          (if creates
           then (Inr dir, w\<lparr>disk := (dir, []) # disk w, constructed := constructed w + 1\<rparr>)
           else (Inl (Exn ''ValueError'' ''no collection''), w)))"

definition stub_from_documents ::
  "document list \<Rightarrow> HuggingFaceEmbeddings \<Rightarrow> string \<Rightarrow> world \<Rightarrow> (exn + string) \<times> world" where
  "stub_from_documents ds emb dir w =
     (Inr dir, w\<lparr>disk := (dir, stored w dir @ ds) # disk w,
                 constructed := constructed w + 1\<rparr>)"

definition stub_similarity_search ::
  "string \<Rightarrow> string \<Rightarrow> int \<Rightarrow> world \<Rightarrow> (exn + document list) \<times> world" where
  "stub_similarity_search h query k w =
     (if k \<le> 0
      then (Inl (Exn ''ValueError'' ''number of requested results cannot be negative or zero''), w)
      else (Inr (take (nat k) (stored w h)), w))"

text \<open>The chat model double gives its scripted replies one per call.\<close>

definition stub_invoke :: "ChatGroq \<Rightarrow> messages \<Rightarrow> world \<Rightarrow> (exn + string) \<times> world" where
  "stub_invoke cfg prompt w =
     (case replies w of
        [] \<Rightarrow> (Inl (Exn ''APIConnectionError'' ''no reply''), w)
      | r # rs \<Rightarrow> (r, w\<lparr>replies := rs\<rparr>))"

text \<open>The parser double knows two replies and rejects every other text.\<close>

definition billing_reply :: pyval where
  "billing_reply =
     PDict [ (''category'', PStr ''billing''), (''priority'', PStr ''high''),
             (''sentiment'', PStr ''negative''), (''confidence'', PFloat 0.9) ]"

definition other_reply :: pyval where
  "other_reply =
     PDict [ (''category'', PStr ''other''), (''priority'', PStr ''low''),
             (''sentiment'', PStr ''neutral''), (''confidence'', PFloat 1.5) ]"

definition stub_parse :: "pydantic_model \<Rightarrow> string \<Rightarrow> exn + pyval" where
  "stub_parse model s =
     (if s = ''billing/high/negative/0.9'' then Inr billing_reply
      else if s = ''other/low/neutral/1.5'' then Inr other_reply
      else Inl (Exn ''OutputParserException'' s))"

definition stub_services :: "bool \<Rightarrow> (world, string) services" where
  "stub_services creates =
     \<lparr> DirectoryLoader_load = (\<lambda>path glob w. (Inr [], w)),
       split_documents = (\<lambda>chunk_size chunk_overlap ds. Inr ds),
       Chroma_from_documents = stub_from_documents,
       Chroma = stub_Chroma creates,
       similarity_search = stub_similarity_search,
       getenv = (\<lambda>name. if name = ''GROQ_API_KEY'' then Some ''gsk-test-key'' else None),
       format_messages = (\<lambda>template vars. Inr template),
       get_format_instructions = (\<lambda>model. ''Return a JSON object.''),
       ChatGroq_invoke = stub_invoke,
       JsonOutputParser_parse = stub_parse,
       StrOutputParser_parse = Inr \<rparr>"

definition cancel_doc :: document where
  "cancel_doc =
     \<lparr> page_content = ''To cancel your subscription, go to Settings > Billing > Cancel Plan.'',
       metadata = [(''source'', PStr ''support_docs/cancel.txt'')] \<rparr>"

definition anonymous_doc :: document where
  "anonymous_doc = \<lparr> page_content = ''Refunds take five days.'', metadata = [] \<rparr>"

definition empty_world :: world where
  "empty_world = \<lparr> disk = [], constructed = 0, replies = [] \<rparr>"

definition built_world :: world where
  "built_world =
     \<lparr> disk = [(''./chroma_db'', [cancel_doc, anonymous_doc])], constructed = 0, replies = [] \<rparr>"

definition fresh_kb :: "string KnowledgeBase" where
  "fresh_kb = KnowledgeBase_init ''./chroma_db''"

definition attached_kb :: "string KnowledgeBase" where
  "attached_kb = fresh_kb\<lparr>vectorstore := Some ''./chroma_db''\<rparr>"

definition created_world :: world where
  "created_world = \<lparr> disk = [(''./chroma_db'', [])], constructed = 1, replies = [] \<rparr>"

definition stub_generator :: "(world, string) ResponseGenerator" where
  "stub_generator = ResponseGenerator_init (stub_services True)"

text \<open>Worlds whose chat model answers the classifier first and the response chain second.\<close>

definition ticket_world :: world where
  "ticket_world =
     built_world\<lparr>replies := [ Inr ''billing/high/negative/0.9'',
                              Inr ''Open Settings > Billing > Cancel Plan.'' ]\<rparr>"

definition no_context_world :: world where
  "no_context_world =
     empty_world\<lparr>replies := [ Inr ''billing/high/negative/0.9'',
                              Inr ''I do not know; I will escalate this.'' ]\<rparr>"

definition no_context_timeout_world :: world where
  "no_context_timeout_world =
     empty_world\<lparr>replies := [ Inr ''billing/high/negative/0.9'',
                              Inl (Exn ''APITimeoutError'' ''Request timed out.'') ]\<rparr>"

section \<open>Properties of KnowledgeBase.search\<close>

lemma query_vectorstore_Some:
  "vectorstore kb = Some h \<Longrightarrow>
   query_vectorstore sv kb query k w =
     (fst (similarity_search sv h query k w), kb, snd (similarity_search sv h query k w))"
  by (simp add: query_vectorstore_def split: prod.splits)

text \<open>With a handle attached, \<open>search\<close> is the query on that handle.\<close>

lemma search_attached:
  "vectorstore kb = Some h \<Longrightarrow>
   search sv kb query k w =
     (fst (similarity_search sv h query k w), kb, snd (similarity_search sv h query k w))"
  by (simp add: search_def not_vectorstore_def query_vectorstore_Some)

text \<open>With none, \<open>search\<close> constructs a handle first and queries the new handle.\<close>

lemma search_reload:
  "vectorstore kb = None \<Longrightarrow>
   search sv kb query k w =
     (case Chroma sv (persist_directory kb) (embeddings kb) w of
        (Inl e, w') \<Rightarrow> (Inl e, kb, w')
      | (Inr h, w') \<Rightarrow>
          (case similarity_search sv h query k w' of
             (r, w'') \<Rightarrow> (r, kb\<lparr>vectorstore := Some h\<rparr>, w'')))"
  by (simp add: search_def not_vectorstore_def load_vectorstore_def query_vectorstore_def
           split: prod.splits sum.splits)

lemma search_outcome:
  assumes "search sv kb query k w = (r, kb', w')"
  shows "(\<exists>e. r = Inl e \<and> kb' = kb
              \<and> Chroma sv (persist_directory kb) (embeddings kb) w = (Inl e, w'))
       \<or> (\<exists>h w0. vectorstore kb' = Some h \<and> similarity_search sv h query k w0 = (r, w'))"
proof (cases "vectorstore kb")
  case None
  from assms show ?thesis
    unfolding search_reload [OF None]
    by (auto split: prod.splits sum.splits)
next
  case (Some h)
  from assms show ?thesis
    unfolding search_attached [OF Some]
    by (metis Some prod.collapse prod.inject)
qed

lemmas double_defs =
  search_def not_vectorstore_def load_vectorstore_def query_vectorstore_def
  create_vectorstore_def
  stub_services_def stub_Chroma_def stub_similarity_search_def stub_from_documents_def
  stored_def KnowledgeBase_init_def empty_world_def built_world_def
  fresh_kb_def attached_kb_def created_world_def

text \<open>
  C1 (as amended). For every query and every \<open>k \<le> 0\<close>, \<open>search\<close> returns no result: it
  raises. It raises no \<open>InvalidArgument\<close>, for \<open>search\<close> makes no check of \<open>k\<close> itself:
  with a vector store that rejects every \<open>k \<le> 0\<close>, as Chroma does, the exception is the
  one that \<open>similarity_search(query, k)\<close> raised on the attached handle, passed on as it
  is, or the exception of the Chroma constructor when the lazy load failed.
\<close>

theorem search_nonpositive_never_returns:
  assumes "k \<le> 0"
      and "\<And>h q j w0. j \<le> 0 \<Longrightarrow> \<exists>e w1. similarity_search sv h q j w0 = (Inl e, w1)"
  shows "\<exists>e kb' w'. search sv kb query k w = (Inl e, kb', w')
           \<and> ((kb' = kb \<and> Chroma sv (persist_directory kb) (embeddings kb) w = (Inl e, w'))
              \<or> (\<exists>h w0. vectorstore kb' = Some h
                     \<and> similarity_search sv h query k w0 = (Inl e, w')))"
proof -
  obtain r kb' w' where run: "search sv kb query k w = (r, kb', w')"
    by (cases "search sv kb query k w") auto
  from search_outcome [OF run] show ?thesis
  proof
    assume "\<exists>e. r = Inl e \<and> kb' = kb
              \<and> Chroma sv (persist_directory kb) (embeddings kb) w = (Inl e, w')"
    with run show ?thesis by auto
  next
    assume "\<exists>h w0. vectorstore kb' = Some h \<and> similarity_search sv h query k w0 = (r, w')"
    then obtain h w0 where h: "vectorstore kb' = Some h"
      and q: "similarity_search sv h query k w0 = (r, w')" by blast
    from assms(2) [OF assms(1), of h query w0] q obtain e where "r = Inl e" by auto
    with run h q show ?thesis by auto
  qed
qed

theorem search_nonpositive_never_returns_witness:
  "(0::int) \<le> 0
   \<and> search (stub_services True) fresh_kb ''How do I cancel?'' 0 built_world
       = (Inl (Exn ''ValueError'' ''number of requested results cannot be negative or zero''),
          attached_kb, built_world\<lparr>constructed := 1\<rparr>)
   \<and> (\<exists>h w0. vectorstore attached_kb = Some h
          \<and> similarity_search (stub_services True) h ''How do I cancel?'' 0 w0
              = (Inl (Exn ''ValueError''
                        ''number of requested results cannot be negative or zero''),
                 built_world\<lparr>constructed := 1\<rparr>))"
proof -
  have nonpositive: "(0::int) \<le> 0" by simp
  have rejects: "\<And>h q j w0. j \<le> 0 \<Longrightarrow>
      \<exists>e w1. similarity_search (stub_services True) h q j w0 = (Inl e, w1)"
    by (simp add: stub_services_def stub_similarity_search_def)
  have run: "search (stub_services True) fresh_kb ''How do I cancel?'' 0 built_world
     = (Inl (Exn ''ValueError'' ''number of requested results cannot be negative or zero''),
        attached_kb, built_world\<lparr>constructed := 1\<rparr>)"
    by (simp add: double_defs)
  have changed: "attached_kb \<noteq> fresh_kb"
    by (simp add: double_defs)
  from search_nonpositive_never_returns [OF nonpositive rejects,
      of fresh_kb "''How do I cancel?''" built_world]
  have "\<exists>h w0. vectorstore attached_kb = Some h
          \<and> similarity_search (stub_services True) h ''How do I cancel?'' 0 w0
              = (Inl (Exn ''ValueError''
                        ''number of requested results cannot be negative or zero''),
                 built_world\<lparr>constructed := 1\<rparr>)"
    unfolding run using changed by auto
  with run show ?thesis by simp
qed

text \<open>
  For \<open>k = 0\<close> the store raises its own \<open>ValueError\<close>, and that is what \<open>search\<close> raises:
  not an \<open>InvalidArgument\<close>.
\<close>

theorem search_k_zero_counterexample:
  "fst (search (stub_services True) fresh_kb ''How do I cancel?'' 0 built_world)
     = Inl (Exn ''ValueError'' ''number of requested results cannot be negative or zero'')
   \<and> \<not> raises_class
         (fst (search (stub_services True) fresh_kb ''How do I cancel?'' 0 built_world))
         ''InvalidArgument''"
  by (simp add: double_defs raises_class_def)

text \<open>
  C2 (as amended). If \<open>search\<close> is invoked before any build or load (\<open>vectorstore\<close> is
  \<open>None\<close>), it first calls \<open>load_vectorstore\<close>, which constructs a Chroma handle on
  \<open>persist_directory\<close> without checking that a persisted index exists there. If the
  constructor raises, \<open>search\<close> raises that same exception and \<open>vectorstore\<close> stays \<open>None\<close>.
  Otherwise the new handle is stored in \<open>vectorstore\<close> and \<open>search\<close> returns or raises what
  \<open>similarity_search\<close> on it does.
\<close>

theorem search_lazy_load:
  assumes "vectorstore kb = None"
  shows "search sv kb query k w =
     (case Chroma sv (persist_directory kb) (embeddings kb) w of
        (Inl e, w') \<Rightarrow> (Inl e, kb, w')
      | (Inr h, w') \<Rightarrow>
          (case similarity_search sv h query k w' of
             (r, w'') \<Rightarrow> (r, kb\<lparr>vectorstore := Some h\<rparr>, w'')))"
  using assms by (rule search_reload)

theorem search_lazy_load_witness:
  "vectorstore fresh_kb = None
   \<and> search (stub_services True) fresh_kb ''How do I cancel?'' 1 built_world
       = (Inr [cancel_doc], attached_kb, built_world\<lparr>constructed := 1\<rparr>)"
proof -
  have none: "vectorstore fresh_kb = None"
    by (simp add: double_defs)
  show ?thesis
    unfolding search_lazy_load [OF none]
    by (simp add: double_defs)
qed

text \<open>
  No index is persisted at the configured directory. With a constructor that creates an
  empty collection there, \<open>search\<close> returns normally, with no chunk; with a constructor
  that raises, \<open>search\<close> raises the constructor's own exception.
\<close>

theorem search_without_index_counterexample:
  "map_of (disk empty_world) (persist_directory fresh_kb) = None
   \<and> vectorstore fresh_kb = None
   \<and> search (stub_services True) fresh_kb ''How do I cancel?'' 3 empty_world
       = (Inr [], attached_kb, created_world)
   \<and> search (stub_services False) fresh_kb ''How do I cancel?'' 3 empty_world
       = (Inl (Exn ''ValueError'' ''no collection''), fresh_kb, empty_world)"
  by (simp add: double_defs)



section \<open>Properties of the classifier chain\<close>

text \<open>The chain runs its three stages once each, in order.\<close>

lemma create_classifier_unfold:
  "create_classifier sv vars w =
     (case classifier_prompt sv vars of
        Inl e \<Rightarrow> (Inl e, w)
      | Inr p \<Rightarrow>
          (case ChatGroq_invoke sv (classifier_llm sv) p w of
             (Inl e, w') \<Rightarrow> (Inl e, w')
           | (Inr m, w') \<Rightarrow> (JsonOutputParser_parse sv TicketClassification m, w')))"
  by (simp add: create_classifier_def pipe_def step_def split: sum.splits prod.splits)

lemmas classifier_defs =
  create_classifier_def pipe_def step_def classifier_prompt_def classifier_llm_def
  stub_services_def stub_invoke_def stub_parse_def empty_world_def built_world_def

text \<open>
  C3 (as amended). For every ticket text, the classifier either returns exactly the value
  that the JSON output parser produced from the model's reply, or raises the exception
  raised by the prompt rendering, by the model call or by the parser. The repository's code
  applies no check of the enumerated domains or of the range of \<open>confidence\<close> to that value
  (\<open>TicketClassification\<close> annotates \<open>category\<close>, \<open>priority\<close> and \<open>sentiment\<close> as \<open>str\<close> and
  \<open>confidence\<close> as \<open>float\<close>), and it raises no \<open>ClassificationError\<close> of its own.
\<close>

theorem classify_outcome:
  assumes "create_classifier sv vars w = (r, w')"
  shows "(\<exists>e. r = Inl e \<and> w' = w \<and> classifier_prompt sv vars = Inl e)
       \<or> (\<exists>p e. r = Inl e \<and> classifier_prompt sv vars = Inr p
              \<and> ChatGroq_invoke sv (classifier_llm sv) p w = (Inl e, w'))
       \<or> (\<exists>p m. r = JsonOutputParser_parse sv TicketClassification m
              \<and> classifier_prompt sv vars = Inr p
              \<and> ChatGroq_invoke sv (classifier_llm sv) p w = (Inr m, w'))"
  using assms unfolding create_classifier_unfold
  by (auto split: sum.splits prod.splits)

theorem classify_outcome_witness:
  "create_classifier (stub_services True)
       [(''ticket_text'', PStr ''I was charged twice this month'')]
       (empty_world\<lparr>replies := [Inr ''billing/high/negative/0.9'']\<rparr>)
     = (Inr billing_reply, empty_world)
   \<and> (\<exists>p m. Inr billing_reply
                = JsonOutputParser_parse (stub_services True) TicketClassification m
          \<and> classifier_prompt (stub_services True)
                [(''ticket_text'', PStr ''I was charged twice this month'')] = Inr p
          \<and> ChatGroq_invoke (stub_services True)
                (classifier_llm (stub_services True)) p
                (empty_world\<lparr>replies := [Inr ''billing/high/negative/0.9'']\<rparr>)
              = (Inr m, empty_world))"
proof -
  have run: "create_classifier (stub_services True)
       [(''ticket_text'', PStr ''I was charged twice this month'')]
       (empty_world\<lparr>replies := [Inr ''billing/high/negative/0.9'']\<rparr>)
     = (Inr billing_reply, empty_world)"
    by (simp add: classifier_defs)
  from classify_outcome [OF run] run show ?thesis
    by auto
qed

text \<open>
  The model answers with a category outside the four and a confidence of 1.5. The value
  has the annotated type in every field, and the classifier returns it.
\<close>

theorem classify_out_of_domain_counterexample:
  "create_classifier (stub_services True)
       [(''ticket_text'', PStr ''I was charged twice this month'')]
       (empty_world\<lparr>replies := [Inr ''other/low/neutral/1.5'']\<rparr>)
     = (Inr other_reply, empty_world)
   \<and> \<not> in_Classification_domain other_reply
   \<and> conforms TicketClassification other_reply"
  by (simp add: classifier_defs in_Classification_domain_def other_reply_def str_field_in_def
        confidence_in_unit_def conforms_def TicketClassification_def)

text \<open>
  C4 (as amended). When the generation call of the classifier yields output that the
  output parser rejects, the classifier does not retry: the parser's exception is raised to
  the caller as it is, after exactly one generation call (the world is the one that call
  left). The repository's code raises no \<open>ClassificationError\<close> carrying the raw output.
\<close>

theorem classify_no_retry:
  assumes "classifier_prompt sv vars = Inr p"
      and "ChatGroq_invoke sv (classifier_llm sv) p w = (Inr m, w1)"
      and "JsonOutputParser_parse sv TicketClassification m = Inl e"
  shows "create_classifier sv vars w = (Inl e, w1)"
  using assms unfolding create_classifier_unfold by simp

theorem classify_no_retry_witness:
  "classifier_prompt (stub_services True) [(''ticket_text'', PStr ''My app crashes'')]
     = Inr classifier_template
   \<and> ChatGroq_invoke (stub_services True) (classifier_llm (stub_services True))
        classifier_template (empty_world\<lparr>replies := [Inr ''Sure, happy to help!'']\<rparr>)
       = (Inr ''Sure, happy to help!'', empty_world)
   \<and> JsonOutputParser_parse (stub_services True) TicketClassification
        ''Sure, happy to help!''
       = Inl (Exn ''OutputParserException'' ''Sure, happy to help!'')
   \<and> create_classifier (stub_services True) [(''ticket_text'', PStr ''My app crashes'')]
        (empty_world\<lparr>replies := [Inr ''Sure, happy to help!'']\<rparr>)
       = (Inl (Exn ''OutputParserException'' ''Sure, happy to help!''), empty_world)"
proof -
  have rendered: "classifier_prompt (stub_services True)
      [(''ticket_text'', PStr ''My app crashes'')] = Inr classifier_template"
    by (simp add: classifier_defs)
  have replied: "ChatGroq_invoke (stub_services True)
      (classifier_llm (stub_services True)) classifier_template
      (empty_world\<lparr>replies := [Inr ''Sure, happy to help!'']\<rparr>)
    = (Inr ''Sure, happy to help!'', empty_world)"
    by (simp add: classifier_defs)
  have rejected: "JsonOutputParser_parse (stub_services True) TicketClassification
      ''Sure, happy to help!'' = Inl (Exn ''OutputParserException'' ''Sure, happy to help!'')"
    by (simp add: classifier_defs)
  from classify_no_retry [OF rendered replied rejected] rendered replied rejected
  show ?thesis by blast
qed

text \<open>
  The first reply of the model is rejected by the parser and its second reply would be
  accepted. The classifier raises on the first and never asks for the second.
\<close>

theorem classify_single_call_counterexample:
  "create_classifier (stub_services True)
       [(''ticket_text'', PStr ''I was charged twice this month'')]
       (empty_world\<lparr>replies := [Inr ''not json'', Inr ''billing/high/negative/0.9'']\<rparr>)
     = (Inl (Exn ''OutputParserException'' ''not json''),
        empty_world\<lparr>replies := [Inr ''billing/high/negative/0.9'']\<rparr>)"
  by (simp add: classifier_defs)

section \<open>Properties of ResponseGenerator.generate\_response\<close>

lemmas generator_defs =
  generate_response_def ResponseGenerator_init_def stub_generator_def
  create_classifier_def pipe_def step_def classifier_prompt_def classifier_llm_def
  stub_invoke_def stub_parse_def dict_get_def nl_def Let_def
  ticket_world_def no_context_world_def no_context_timeout_world_def
  cancel_doc_def anonymous_doc_def

text \<open>
  C5. For every ticket text for which classification and retrieval succeed, the
  TicketResult that \<open>generate_response\<close> returns (it returns one when the generation call
  returns its text) has a \<open>sources\<close> sequence with exactly one entry per retrieved chunk, in
  retrieval rank order (not deduplicated), where each entry is the value under \<open>source\<close>
  in that chunk's metadata, or the string \<open>unknown\<close> when the metadata has no \<open>source\<close>
  key.
\<close>

theorem generate_response_sources:
  assumes "classifier self [(''ticket_text'', PStr ticket_text)] w = (Inr c, w1)"
      and "search sv (knowledge_base self) ticket_text 5 w1 = (Inr docs, kb', w2)"
      and "chain self [ (''context'', PStr (join (nl @ nl) (map page_content docs))),
                        (''classification'', c),
                        (''question'', PStr ticket_text) ] w2 = (Inr r, w3)"
  shows "\<exists>srcs. generate_response sv self ticket_text w
                  = (Inr \<lparr> response = r, classification = c, sources = srcs \<rparr>,
                     self\<lparr>knowledge_base := kb'\<rparr>, w3)
           \<and> length srcs = length docs
           \<and> (\<forall>i < length docs.
                 srcs ! i =
                   (case map_of (metadata (docs ! i)) ''source'' of
                      None \<Rightarrow> PStr ''unknown'' | Some v \<Rightarrow> v))"
  using assms by (simp add: generate_response_def dict_get_def)

theorem generate_response_sources_witness:
  "classifier stub_generator [(''ticket_text'', PStr ''I cannot cancel my subscription'')]
       ticket_world
     = (Inr billing_reply,
        ticket_world\<lparr>replies := [Inr ''Open Settings > Billing > Cancel Plan.'']\<rparr>)
   \<and> search (stub_services True) (knowledge_base stub_generator)
        ''I cannot cancel my subscription'' 5
        (ticket_world\<lparr>replies := [Inr ''Open Settings > Billing > Cancel Plan.'']\<rparr>)
       = (Inr [cancel_doc, anonymous_doc], attached_kb,
          ticket_world\<lparr>replies := [Inr ''Open Settings > Billing > Cancel Plan.''],
                         constructed := 1\<rparr>)
   \<and> chain stub_generator
        [ (''context'', PStr (join (nl @ nl) (map page_content [cancel_doc, anonymous_doc]))),
          (''classification'', billing_reply),
          (''question'', PStr ''I cannot cancel my subscription'') ]
        (ticket_world\<lparr>replies := [Inr ''Open Settings > Billing > Cancel Plan.''],
                       constructed := 1\<rparr>)
       = (Inr ''Open Settings > Billing > Cancel Plan.'',
          ticket_world\<lparr>replies := [], constructed := 1\<rparr>)
   \<and> generate_response (stub_services True) stub_generator
        ''I cannot cancel my subscription'' ticket_world
       = (Inr \<lparr> response = ''Open Settings > Billing > Cancel Plan.'',
                classification = billing_reply,
                sources = [PStr ''support_docs/cancel.txt'', PStr ''unknown''] \<rparr>,
          stub_generator\<lparr>knowledge_base := attached_kb\<rparr>,
          ticket_world\<lparr>replies := [], constructed := 1\<rparr>)"
proof -
  have classified: "classifier stub_generator
      [(''ticket_text'', PStr ''I cannot cancel my subscription'')] ticket_world
     = (Inr billing_reply,
        ticket_world\<lparr>replies := [Inr ''Open Settings > Billing > Cancel Plan.'']\<rparr>)"
    by (simp add: generator_defs double_defs)
  have retrieved: "search (stub_services True) (knowledge_base stub_generator)
        ''I cannot cancel my subscription'' 5
        (ticket_world\<lparr>replies := [Inr ''Open Settings > Billing > Cancel Plan.'']\<rparr>)
       = (Inr [cancel_doc, anonymous_doc], attached_kb,
          ticket_world\<lparr>replies := [Inr ''Open Settings > Billing > Cancel Plan.''],
                         constructed := 1\<rparr>)"
    by (simp add: generator_defs double_defs)
  have generated: "chain stub_generator
        [ (''context'', PStr (join (nl @ nl) (map page_content [cancel_doc, anonymous_doc]))),
          (''classification'', billing_reply),
          (''question'', PStr ''I cannot cancel my subscription'') ]
        (ticket_world\<lparr>replies := [Inr ''Open Settings > Billing > Cancel Plan.''],
                       constructed := 1\<rparr>)
       = (Inr ''Open Settings > Billing > Cancel Plan.'',
          ticket_world\<lparr>replies := [], constructed := 1\<rparr>)"
    by (simp add: generator_defs double_defs)
  from generate_response_sources [OF classified retrieved generated]
  obtain srcs where run: "generate_response (stub_services True) stub_generator
        ''I cannot cancel my subscription'' ticket_world
      = (Inr \<lparr> response = ''Open Settings > Billing > Cancel Plan.'',
               classification = billing_reply, sources = srcs \<rparr>,
         stub_generator\<lparr>knowledge_base := attached_kb\<rparr>,
         ticket_world\<lparr>replies := [], constructed := 1\<rparr>)"
    and len: "length srcs = length [cancel_doc, anonymous_doc]"
    and nth: "\<forall>i < length [cancel_doc, anonymous_doc].
                srcs ! i =
                  (case map_of (metadata ([cancel_doc, anonymous_doc] ! i)) ''source'' of
                     None \<Rightarrow> PStr ''unknown'' | Some v \<Rightarrow> v)"
    by blast
  from nth have "srcs ! 0 = PStr ''support_docs/cancel.txt''" and "srcs ! 1 = PStr ''unknown''"
    by (simp_all add: cancel_doc_def anonymous_doc_def)
  with len have "srcs = [PStr ''support_docs/cancel.txt'', PStr ''unknown'']"
    by (cases srcs; cases "tl srcs") auto
  with run classified retrieved generated show ?thesis by simp
qed




end
